theory Spec2Isabelle
  imports Complex_Main "HOL-Library.Sublist" "HOL-Library.Multiset"
begin

section \<open>Python strings\<close>

text \<open>
  A Python \<^verbatim>\<open>str\<close> is modelled as a \<^typ>\<open>string\<close> whose characters are the code
  points below 256. On that range \<^verbatim>\<open>str.lower\<close> maps A-Z and the upper-case Latin-1
  letters (except the multiplication sign, 215) to the letter 32 places later and leaves
  every other character alone; \<^verbatim>\<open>str.isspace\<close>, which is also what the regular
  expression class \<^verbatim>\<open>\s\<close> matches, holds of the code points 9-13, 28-32, 133 and
  160; \<^verbatim>\<open>\d\<close> matches 0-9 only.
\<close>

definition code :: "char \<Rightarrow> nat" where
  "code c = of_char c"

definition char_lower :: "char \<Rightarrow> char" where
  "char_lower c =
     (if (65 \<le> code c \<and> code c \<le> 90) \<or> (192 \<le> code c \<and> code c \<le> 222 \<and> code c \<noteq> 215)
      then char_of (code c + 32) else c)"

definition lower :: "string \<Rightarrow> string" where
  "lower s = map char_lower s"

definition isspace :: "char \<Rightarrow> bool" where
  "isspace c = ((9 \<le> code c \<and> code c \<le> 13) \<or> (28 \<le> code c \<and> code c \<le> 32)
                 \<or> code c = 133 \<or> code c = 160)"

definition isdigit :: "char \<Rightarrow> bool" where
  "isdigit c = (48 \<le> code c \<and> code c \<le> 57)"

text \<open>\<^verbatim>\<open>s.strip()\<close>: drop the white space at both ends.\<close>

definition strip :: "string \<Rightarrow> string" where
  "strip s = rev (dropWhile isspace (rev (dropWhile isspace s)))"

text \<open>\<^verbatim>\<open>sub in s\<close> on strings: \<open>sub\<close> occurs in \<open>s\<close> as a contiguous block.\<close>

definition py_in :: "string \<Rightarrow> string \<Rightarrow> bool" where
  "py_in sub s = sublist sub s"

text \<open>
  \<^verbatim>\<open>int(ds)\<close> for a non-empty run of the digits 0-9. (The limit recent Python
  versions put on the length of the digit string, 4300 digits by default, is left out.)
\<close>

definition py_int :: "string \<Rightarrow> int" where
  "py_int ds = foldl (\<lambda>acc c. 10 * acc + (int (code c) - 48)) 0 ds"

section \<open>Regular expressions of \<^verbatim>\<open>extract_score_from_result\<close>\<close>

text \<open>
  \<^verbatim>\<open>re.search(p, s)\<close> tries the start positions of \<open>s\<close> from left to right and
  returns the first match. \<open>re_search m s\<close> does so for a matcher \<open>m\<close> that says
  whether the pattern matches at the head of its argument and, if so, returns group 1.
  No pattern used here matches the empty string, so the position past the end never
  matches.
\<close>

fun re_search :: "(string \<Rightarrow> string option) \<Rightarrow> string \<Rightarrow> string option" where
  "re_search m [] = None"
| "re_search m (c # cs) = (case m (c # cs) of Some g \<Rightarrow> Some g | None \<Rightarrow> re_search m cs)"

text \<open>
  The character class \<^verbatim>\<open>[\s:]\<close>. It is disjoint from \<^verbatim>\<open>\d\<close> and from the first
  letter of every literal that follows it in a pattern, so a greedy run of it followed by
  \<^verbatim>\<open>(\d+)\<close> matches exactly when the character after the longest run is a digit, and
  group 1 is then the longest run of digits: backtracking never finds another match.
\<close>

definition is_sep :: "char \<Rightarrow> bool" where
  "is_sep c = (isspace c \<or> c = CHR '':'')"

text \<open>\<^verbatim>\<open>(\d+)\<close> at the head of \<open>s\<close>: the longest run of digits, if it is not empty.\<close>

definition digits_group :: "string \<Rightarrow> string option" where
  "digits_group s = (let ds = takeWhile isdigit s in if ds = [] then None else Some ds)"

text \<open>\<^verbatim>\<open>lit[\s:]*(\d+)\<close> and \<^verbatim>\<open>lit[\s:]+(\d+)\<close> at the head of \<open>s\<close>.\<close>

definition lit_seps_digits :: "string \<Rightarrow> bool \<Rightarrow> string \<Rightarrow> string option" where
  "lit_seps_digits lit need_sep s =
     (if prefix lit s then
        (let r = drop (length lit) s in
         if need_sep \<and> takeWhile is_sep r = [] then None
         else digits_group (dropWhile is_sep r))
      else None)"

text \<open>\<^verbatim>\<open>match_score[\s:]*(\d+)\<close>\<close>

definition match_score_pattern :: "string \<Rightarrow> string option" where
  "match_score_pattern s = lit_seps_digits ''match_score'' False s"

text \<open>
  An optional group \<^verbatim>\<open>(?:lit\s*)?\<close>: when \<open>s\<close> starts with \<open>lit\<close> the group takes it
  and the white space after it; what follows the group in the pattern starts with a letter
  other than the first letter of \<open>lit\<close>, so skipping the group or giving white space back
  cannot match where taking it fails.
\<close>

definition opt_lit_spaces :: "string \<Rightarrow> string \<Rightarrow> string" where
  "opt_lit_spaces lit s = (if prefix lit s then dropWhile isspace (drop (length lit) s) else s)"

text \<open>\<^verbatim>\<open>(?:final\s*)?(?:match\s*)?score[\s:]+(\d+)\<close>\<close>

definition score_pattern :: "string \<Rightarrow> string option" where
  "score_pattern s =
     lit_seps_digits ''score'' True (opt_lit_spaces ''match'' (opt_lit_spaces ''final'' s))"

text \<open>
  \<^verbatim>\<open>(\d+)\s*(?:%|/100|out of 100)\<close>: the digits, the white space, then one of the three
  literals. None of the literals starts with a digit or a space, so only the longest runs
  can match.
\<close>

definition percent_pattern :: "string \<Rightarrow> string option" where
  "percent_pattern s =
     (case digits_group s of
        None \<Rightarrow> None
      | Some ds \<Rightarrow>
          (let r = dropWhile isspace (drop (length ds) s) in
           if prefix ''%'' r \<or> prefix ''/100'' r \<or> prefix ''out of 100'' r
           then Some ds else None))"

text \<open>\<^verbatim>\<open>rating[\s:]+(\d+)\<close> and \<^verbatim>\<open>overall[\s:]+(\d+)\<close>\<close>

definition rating_pattern :: "string \<Rightarrow> string option" where
  "rating_pattern s = lit_seps_digits ''rating'' True s"

definition overall_pattern :: "string \<Rightarrow> string option" where
  "overall_pattern s = lit_seps_digits ''overall'' True s"

text \<open>
  \<^verbatim>\<open>\*\*(\d+)\*\*\s*(?:%|/100)?\<close>: the tail after the closing stars is optional and
  captures nothing, so it decides neither whether the pattern matches nor group 1.
\<close>

definition bold_pattern :: "string \<Rightarrow> string option" where
  "bold_pattern s =
     (if prefix ''**'' s then
        (case digits_group (drop 2 s) of
           None \<Rightarrow> None
         | Some ds \<Rightarrow> if prefix ''**'' (drop (2 + length ds) s) then Some ds else None)
      else None)"

text \<open>
  \<^verbatim>\<open>len(re.findall(r'(?:a|b|...)', s))\<close>: the number of non-overlapping occurrences,
  found from left to right; at each position the alternatives are tried in order and the
  scan resumes after the one that matched.
\<close>

fun findall_count :: "string list \<Rightarrow> string \<Rightarrow> nat" where
  "findall_count alts [] = 0"
| "findall_count alts (c # cs) =
     (case find (\<lambda>a. prefix a (c # cs)) alts of
        Some a \<Rightarrow> Suc (findall_count alts (drop (length a - 1) cs))
      | None \<Rightarrow> findall_count alts cs)"

section \<open>\<^verbatim>\<open>crews/screening_crew.py\<close>: scores and recommendations\<close>

text \<open>
  One stage of the numeric search: \<^verbatim>\<open>match = re.search(pattern, result_lower)\<close>, and
  the score is returned when there is a match and \<^verbatim>\<open>0 <= int(match.group(1)) <= 100\<close>.
\<close>

definition score_in_range :: "(string \<Rightarrow> string option) \<Rightarrow> string \<Rightarrow> int option" where
  "score_in_range m result_lower =
     (case re_search m result_lower of
        None \<Rightarrow> None
      | Some g \<Rightarrow> (let score = py_int g in if 0 \<le> score \<and> score \<le> 100 then Some score else None))"

definition patterns :: "(string \<Rightarrow> string option) list" where
  "patterns = [score_pattern, percent_pattern, rating_pattern, overall_pattern, bold_pattern]"

text \<open>The \<^verbatim>\<open>for pattern in patterns\<close> loop: the first stage that returns wins.\<close>

fun first_score :: "(string \<Rightarrow> string option) list \<Rightarrow> string \<Rightarrow> int option" where
  "first_score [] result_lower = None"
| "first_score (m # ms) result_lower =
     (case score_in_range m result_lower of
        Some score \<Rightarrow> Some score
      | None \<Rightarrow> first_score ms result_lower)"

definition matches_count :: "string \<Rightarrow> int" where
  "matches_count result_lower =
     int (findall_count [''meets'', ''has'', ''matches'', ''qualified'', ''proficient''] result_lower)"

definition misses_count :: "string \<Rightarrow> int" where
  "misses_count result_lower =
     int (findall_count [''missing'', ''lacks'', ''no experience'', ''not found'',
                         ''does not have'', ''gap''] result_lower)"

definition base_score :: "string \<Rightarrow> int" where
  "base_score result_lower =
     (let matches = matches_count result_lower; misses = misses_count result_lower in
      if misses > matches then 45
      else if matches > misses * 2 then 70
      else 55)"

text \<open>The part of \<^verbatim>\<open>extract_score_from_result\<close> after the numeric patterns.\<close>

definition keyword_score :: "string \<Rightarrow> int" where
  "keyword_score result_lower =
     (let base = base_score result_lower in
      if py_in ''strong hire'' result_lower then min (base + 20) 90
      else if py_in ''no hire'' result_lower \<or> py_in ''reject'' result_lower then max (base - 20) 25
      else if py_in ''hire'' result_lower then min (base + 10) 80
      else if py_in ''maybe'' result_lower \<or> py_in ''consider'' result_lower then base
      else base)"

definition extract_score_from_result :: "string \<Rightarrow> int" where
  "extract_score_from_result result =
     (let result_lower = lower result in
      case score_in_range match_score_pattern result_lower of
        Some score \<Rightarrow> score
      | None \<Rightarrow>
          (case first_score patterns result_lower of
             Some score \<Rightarrow> score
           | None \<Rightarrow> keyword_score result_lower))"

definition extract_recommendation :: "string \<Rightarrow> string" where
  "extract_recommendation result =
     (let result_lower = lower result in
      if py_in ''strong hire'' result_lower then ''strong_hire''
      else if py_in ''strong no hire'' result_lower then ''strong_no_hire''
      else if py_in ''no hire'' result_lower then ''no_hire''
      else if py_in ''hire'' result_lower then ''hire''
      else ''review'')"

section \<open>\<^verbatim>\<open>crews/screening_crew.py\<close>: screening candidates\<close>

text \<open>
  A raised Python exception, with the text \<^verbatim>\<open>str(e)\<close> gives. A function that may raise
  returns \<open>exn + 'a\<close>, and \<open>py_try\<close> is \<^verbatim>\<open>try: ... except Exception as e: ...\<close>.
\<close>

datatype exn = Exception string

fun str_exn :: "exn \<Rightarrow> string" where
  "str_exn (Exception msg) = msg"

definition py_try :: "exn + 'a \<Rightarrow> (exn \<Rightarrow> exn + 'a) \<Rightarrow> exn + 'a" where
  "py_try body handler = (case body of Inl e \<Rightarrow> handler e | Inr v \<Rightarrow> Inr v)"

text \<open>
  A job requirement as the code reads it, a dict whose keys may be missing
  (\<^verbatim>\<open>req.get('skill', '')\<close>); \<^verbatim>\<open>models/job.py\<close> gives the keys.
\<close>

record requirement =
  skill :: "string option"
  level :: "string option"
  required :: "bool option"
  weight :: "rat option"

text \<open>
  \<^verbatim>\<open>str.title()\<close>: the first cased character of each run of cased characters in upper
  case, the others in lower case. It is applied to the ASCII literals of
  \<^verbatim>\<open>common_skills\<close> only, so the ASCII letters are the cased characters here.
\<close>

definition is_ascii_lower :: "char \<Rightarrow> bool" where
  "is_ascii_lower c = (97 \<le> code c \<and> code c \<le> 122)"

definition is_ascii_upper :: "char \<Rightarrow> bool" where
  "is_ascii_upper c = (65 \<le> code c \<and> code c \<le> 90)"

fun title_from :: "bool \<Rightarrow> string \<Rightarrow> string" where
  "title_from previous_is_cased [] = []"
| "title_from previous_is_cased (c # cs) =
     (if is_ascii_lower c then
        (if previous_is_cased then c else char_of (code c - 32)) # title_from True cs
      else if is_ascii_upper c then
        (if previous_is_cased then char_lower c else c) # title_from True cs
      else c # title_from False cs)"

definition title :: "string \<Rightarrow> string" where
  "title s = title_from False s"

text \<open>\<^verbatim>\<open>sep.join(xs)\<close>\<close>

fun join :: "string \<Rightarrow> string list \<Rightarrow> string" where
  "join sep [] = []"
| "join sep [x] = x"
| "join sep (x # y # ys) = x @ sep @ join sep (y # ys)"

text \<open>
  What the functions ask of the outside: \<^verbatim>\<open>os.path.exists\<close>, the run of a crew
  (\<^verbatim>\<open>str(crew.kickoff())\<close>, which may raise), the clock, the two resume tools of
  \<^verbatim>\<open>tools/resume_parser.py\<close>, whose results only pass through the code modelled here,
  and \<^verbatim>\<open>str(uuid.uuid4())\<close>.
  A crew is given by the values its task descriptions are built from. Building the
  agents, the tasks and the crew assembles objects from these values and is not a step
  of its own in the model.
\<close>

datatype crew =
    Screening_Crew string "requirement list" string rat string
  | Quick_Crew string string rat

record world =
  path_exists :: "string \<Rightarrow> bool"
  kickoff :: "crew \<Rightarrow> exn + string"
  utcnow :: nat
  resume_parser_run :: "string \<Rightarrow> string"
  resume_analyzer_run :: "string \<Rightarrow> exn + string"
  uuid4 :: string

text \<open>The result dict of a screening; \<open>None\<close> is a key the dict does not have.\<close>

record screening_result =
  analysis :: "string option"
  match_score :: int
  status :: string
  recommendation :: "string option"
  error :: "string option"
  candidate_id :: "string option"

definition common_skills :: "string list" where
  "common_skills =
     [''python'', ''javascript'', ''java'', ''c++'', ''go'', ''rust'', ''typescript'',
      ''react'', ''angular'', ''vue'', ''node'', ''django'', ''flask'', ''fastapi'',
      ''aws'', ''gcp'', ''azure'', ''docker'', ''kubernetes'', ''terraform'',
      ''sql'', ''postgresql'', ''mongodb'', ''redis'', ''elasticsearch'',
      ''machine learning'', ''deep learning'', ''nlp'', ''computer vision'',
      ''pytorch'', ''tensorflow'', ''scikit-learn'', ''pandas'', ''numpy'',
      ''api'', ''rest'', ''graphql'', ''microservices'', ''distributed systems'',
      ''ci/cd'', ''git'', ''agile'', ''scrum'', ''leadership'', ''communication'']"

definition quick_common_skills :: "string list" where
  "quick_common_skills =
     [''python'', ''javascript'', ''java'', ''c++'', ''go'', ''rust'', ''typescript'',
      ''react'', ''angular'', ''vue'', ''node'', ''django'', ''flask'', ''fastapi'',
      ''aws'', ''gcp'', ''azure'', ''docker'', ''kubernetes'', ''machine learning'',
      ''deep learning'', ''nlp'', ''sql'', ''api'', ''rest'', ''microservices'']"

text \<open>\<^verbatim>\<open>found_skills[:10]\<close> of the skills the lower-cased description mentions.\<close>

definition found_skills :: "string list \<Rightarrow> string \<Rightarrow> string list" where
  "found_skills skills job_description =
     take 10 (filter (\<lambda>s. py_in s (lower job_description)) skills)"

text \<open>
  The crew \<^verbatim>\<open>screen_candidate\<close> builds: when no requirements are given, up to ten
  skills the description mentions stand in for them.
\<close>

definition screening_crew :: "string \<Rightarrow> requirement list \<Rightarrow> string \<Rightarrow> rat \<Rightarrow> string \<Rightarrow> crew" where
  "screening_crew resume_path job_requirements job_description min_experience_years
       experience_level =
     (let job_requirements =
            (if job_requirements = [] then
               map (\<lambda>s. \<lparr>skill = Some (title s), level = Some ''intermediate'',
                           required = Some True, weight = None\<rparr>)
                 (found_skills common_skills job_description)
             else job_requirements)
      in Screening_Crew resume_path job_requirements job_description min_experience_years
           experience_level)"

definition screen_candidate ::
  "world \<Rightarrow> string \<Rightarrow> requirement list \<Rightarrow> string \<Rightarrow> rat \<Rightarrow> string \<Rightarrow> exn + screening_result" where
  "screen_candidate w resume_path job_requirements job_description min_experience_years
       experience_level =
     (if \<not> path_exists w resume_path then
        Inr \<lparr>analysis = None, match_score = 0, status = ''failed'', recommendation = None,
             error = Some (''Resume not found: '' @ resume_path), candidate_id = None\<rparr>
      else
        (let crew = screening_crew resume_path job_requirements job_description
                      min_experience_years experience_level
         in py_try
              (case kickoff w crew of
                 Inl e \<Rightarrow> Inl e
               | Inr result_str \<Rightarrow>
                   Inr \<lparr>analysis = Some result_str,
                        match_score = extract_score_from_result result_str,
                        status = ''completed'',
                        recommendation = Some (extract_recommendation result_str),
                        error = None, candidate_id = None\<rparr>)
              (\<lambda>e. Inr \<lparr>analysis = None, match_score = 0, status = ''failed'',
                         recommendation = None, error = Some (str_exn e),
                         candidate_id = None\<rparr>)))"

text \<open>The crew of \<^verbatim>\<open>quick_screen_candidate\<close>.\<close>

definition quick_crew :: "string \<Rightarrow> requirement list \<Rightarrow> string \<Rightarrow> rat \<Rightarrow> crew" where
  "quick_crew resume_text job_requirements job_description min_experience_years =
     (let job_requirements =
            (if job_requirements = [] then
               map (\<lambda>s. \<lparr>skill = Some (title s), level = None, required = Some True,
                           weight = None\<rparr>)
                 (found_skills quick_common_skills job_description)
             else job_requirements);
          requirements_list =
            join '', '' (map (\<lambda>r. case skill r of None \<Rightarrow> [] | Some s \<Rightarrow> s) job_requirements)
      in Quick_Crew (take 4000 resume_text) requirements_list min_experience_years)"

definition quick_screen_candidate ::
  "world \<Rightarrow> string \<Rightarrow> requirement list \<Rightarrow> string \<Rightarrow> rat \<Rightarrow> exn + screening_result" where
  "quick_screen_candidate w resume_text job_requirements job_description min_experience_years =
     (let crew = quick_crew resume_text job_requirements job_description min_experience_years
      in py_try
           (case kickoff w crew of
              Inl e \<Rightarrow> Inl e
            | Inr result_str \<Rightarrow>
                Inr \<lparr>analysis = Some result_str,
                     match_score = extract_score_from_result result_str,
                     status = ''completed'',
                     recommendation = Some (extract_recommendation result_str),
                     error = None, candidate_id = None\<rparr>)
           (\<lambda>e. Inr \<lparr>analysis = None, match_score = 50, status = ''failed'',
                      recommendation = None, error = Some (str_exn e), candidate_id = None\<rparr>))"

text \<open>
  A candidate as \<^verbatim>\<open>screen_multiple_candidates\<close> and \<^verbatim>\<open>run_screening_task\<close> are given
  it: a dict with \<^verbatim>\<open>'id'\<close> and \<^verbatim>\<open>'resume_path'\<close>.
\<close>

record candidate_data =
  cd_id :: string
  cd_resume_path :: string

text \<open>
  The loop of \<^verbatim>\<open>screen_multiple_candidates\<close>. The outside may answer each call
  differently: the call for the \<open>i\<close>-th candidate runs in the world \<open>w i\<close>.
\<close>

fun screen_each ::
  "(nat \<Rightarrow> world) \<Rightarrow> nat \<Rightarrow> candidate_data list \<Rightarrow> requirement list \<Rightarrow> string \<Rightarrow> rat \<Rightarrow> string
     \<Rightarrow> exn + screening_result list" where
  "screen_each w i [] job_requirements job_description min_experience_years experience_level =
     Inr []"
| "screen_each w i (candidate # rest) job_requirements job_description min_experience_years
       experience_level =
     (case screen_candidate (w i) (cd_resume_path candidate) job_requirements job_description
             min_experience_years experience_level of
        Inl e \<Rightarrow> Inl e
      | Inr result \<Rightarrow>
          (case screen_each w (Suc i) rest job_requirements job_description
                  min_experience_years experience_level of
             Inl e \<Rightarrow> Inl e
           | Inr results \<Rightarrow> Inr (result\<lparr>candidate_id := Some (cd_id candidate)\<rparr> # results)))"

text \<open>
  \<^verbatim>\<open>results.sort(key=lambda x: x.get('match_score', 0), reverse=True)\<close>: a stable sort,
  highest score first; results of equal score keep their order.
\<close>

definition sort_by_score :: "screening_result list \<Rightarrow> screening_result list" where
  "sort_by_score results = sort_key (\<lambda>x. - match_score x) results"

definition screen_multiple_candidates ::
  "(nat \<Rightarrow> world) \<Rightarrow> candidate_data list \<Rightarrow> requirement list \<Rightarrow> string \<Rightarrow> rat \<Rightarrow> string
     \<Rightarrow> exn + screening_result list" where
  "screen_multiple_candidates w candidates job_requirements job_description
       min_experience_years experience_level =
     (case screen_each w 0 candidates job_requirements job_description min_experience_years
             experience_level of
        Inl e \<Rightarrow> Inl e
      | Inr results \<Rightarrow> Inr (sort_by_score results))"

section \<open>\<^verbatim>\<open>tools/skill_matcher.py\<close>\<close>










section \<open>The database, the files and the settings\<close>

text \<open>
  \<^verbatim>\<open>database/models.py\<close>: a table is the list of its rows, in the order they were
  inserted. A nullable column is an option. \<^verbatim>\<open>match_score\<close> is a Float column; the
  screening routes store integers in it. A time is a number.
\<close>

record job_row =
  j_id :: string
  j_status :: string
  j_description :: string
  j_requirements :: "requirement list option"
  j_min_experience_years :: "rat option"
  j_experience_level :: "string option"
  j_total_applicants :: int
  j_screened_count :: int
  j_shortlisted_count :: int
  j_interviewed_count :: int
  j_updated_at :: "nat option"

record candidate_row =
  c_id :: string
  c_job_id :: string
  c_name :: string
  c_email :: "string option"
  c_phone :: "string option"
  c_linkedin_url :: "string option"
  c_github_url :: "string option"
  c_portfolio_url :: "string option"
  c_cover_letter :: "string option"
  c_skills :: "(string \<times> string) list"
  c_resume_path :: "string option"
  c_status :: string
  c_match_score :: "rat option"
  c_ai_assessment :: "string option"
  c_match_details :: "(string \<times> string) option"
  c_applied_at :: "nat option"
  c_updated_at :: "nat option"
  c_screened_at :: "nat option"

text \<open>
  The state the routes work on: the two tables and the resume files on disk (the
  directories that exist, and the files with their contents, the newest first).
\<close>

record state =
  db_jobs :: "job_row list"
  db_candidates :: "candidate_row list"
  fs_dirs :: "string list"
  fs_files :: "(string \<times> string) list"

record settings =
  min_match_score :: int
  max_file_size_mb :: int
  resume_dir :: string


text \<open>
  What a route does: it raises an \<^verbatim>\<open>HTTPException\<close> with a status code and a
  detail, or an exception nothing handles escapes (a 500), or it returns a JSON object.
\<close>

datatype failure = HTTPException nat string | Unhandled exn

datatype pyval =
    PyStr string
  | PyInt int
  | PyNum rat
  | PyBool bool
  | PyTime nat
  | PyList "pyval list"
  | PyDict "(string \<times> pyval) list"

type_synonym payload = "string \<rightharpoonup> pyval"

text \<open>
  \<^verbatim>\<open>result.scalar_one_or_none()\<close>: no row, the one row, or
  \<^verbatim>\<open>MultipleResultsFound\<close>.
\<close>

definition scalar_one_or_none :: "'a list \<Rightarrow> exn + 'a option" where
  "scalar_one_or_none rows =
     (case rows of
        [] \<Rightarrow> Inr None
      | [row] \<Rightarrow> Inr (Some row)
      | _ \<Rightarrow> Inl (Exception ''MultipleResultsFound''))"

text \<open>\<^verbatim>\<open>str(n)\<close> for an integer.\<close>

fun str_nat :: "nat \<Rightarrow> string" where
  "str_nat n = (if n < 10 then [char_of (48 + n)] else str_nat (n div 10) @ [char_of (48 + n mod 10)])"


text \<open>\<^verbatim>\<open>s.split(sep)\<close> for a non-empty separator.\<close>

fun split_from :: "string \<Rightarrow> string \<Rightarrow> string \<Rightarrow> string list" where
  "split_from sep acc [] = [rev acc]"
| "split_from sep acc (c # cs) =
     (if prefix sep (c # cs) then rev acc # split_from sep [] (drop (length sep - 1) cs)
      else split_from sep (c # acc) cs)"

definition split :: "string \<Rightarrow> string \<Rightarrow> string list" where
  "split s sep = split_from sep [] s"

section \<open>\<^verbatim>\<open>api/routes/apply.py\<close>\<close>








section \<open>\<^verbatim>\<open>api/routes/screening.py\<close>\<close>

text \<open>
  The row update of \<^verbatim>\<open>run_screening_task\<close>. (\<^verbatim>\<open>screening_notes\<close> is no column of
  the table: the assignment sets an attribute of the Python object that is never stored.)
\<close>

definition screening_update :: "settings \<Rightarrow> nat \<Rightarrow> screening_result \<Rightarrow> candidate_row \<Rightarrow> candidate_row" where
  "screening_update st now result candidate_db =
     (let scored = candidate_db\<lparr>c_match_score := Some (of_int (match_score result)),
                                c_status := ''screening'',
                                c_screened_at := Some now\<rparr>
      in if match_score result \<ge> min_match_score st
         then scored\<lparr>c_status := ''shortlisted''\<rparr>
         else scored\<lparr>c_status := ''rejected''\<rparr>)"

text \<open>
  The loop of \<^verbatim>\<open>run_screening_task\<close>, with the state as its accumulator. An
  exception in the body is printed and the loop goes on with the next candidate.
\<close>

fun screening_loop ::
  "settings \<Rightarrow> (nat \<Rightarrow> world) \<Rightarrow> nat \<Rightarrow> candidate_data list \<Rightarrow> requirement list \<Rightarrow> string \<Rightarrow> rat
     \<Rightarrow> string \<Rightarrow> state \<Rightarrow> state" where
  "screening_loop st w i [] job_requirements job_description min_exp exp_level s = s"
| "screening_loop st w i (candidate # rest) job_requirements job_description min_exp exp_level s =
     screening_loop st w (Suc i) rest job_requirements job_description min_exp exp_level
       (case screen_candidate (w i) (cd_resume_path candidate) job_requirements
               job_description min_exp exp_level of
          Inl e \<Rightarrow> s
        | Inr result \<Rightarrow>
            (case scalar_one_or_none
                    (filter (\<lambda>c. c_id c = cd_id candidate) (db_candidates s)) of
               Inl e \<Rightarrow> s
             | Inr None \<Rightarrow> s
             | Inr (Some candidate_db) \<Rightarrow>
                 s\<lparr>db_candidates :=
                     map (\<lambda>c. if c_id c = cd_id candidate
                               then screening_update st (utcnow (w i)) result c else c)
                       (db_candidates s)\<rparr>))"

definition run_screening_task ::
  "settings \<Rightarrow> (nat \<Rightarrow> world) \<Rightarrow> string \<Rightarrow> candidate_data list \<Rightarrow> requirement list \<Rightarrow> string \<Rightarrow> rat
     \<Rightarrow> string \<Rightarrow> state \<Rightarrow> state" where
  "run_screening_task st w job_id candidates_data job_requirements job_description min_exp
       exp_level s =
     (let s1 = screening_loop st w 0 candidates_data job_requirements job_description min_exp
                 exp_level s
      in case scalar_one_or_none (filter (\<lambda>j. j_id j = job_id) (db_jobs s1)) of
           Inr (Some job) \<Rightarrow>
             s1\<lparr>db_jobs :=
                  map (\<lambda>j. if j_id j = job_id
                            then j\<lparr>j_screened_count :=
                                     int (length (filter (\<lambda>c. c_job_id c = job_id
                                                             \<and> c_match_score c \<noteq> None)
                                                    (db_candidates s1))),
                                   j_shortlisted_count :=
                                     int (length (filter (\<lambda>c. c_job_id c = job_id
                                                             \<and> c_status c = ''shortlisted'')
                                                    (db_candidates s1)))\<rparr>
                            else j)
                    (db_jobs s1)\<rparr>
         | _ \<Rightarrow> s1)"

text \<open>
  \<^verbatim>\<open>query.limit(limit)\<close>; on SQLite, the database of the default settings, a negative
  limit is no limit.
\<close>

definition sql_limit :: "int \<Rightarrow> 'a list \<Rightarrow> 'a list" where
  "sql_limit n rows = (if n < 0 then rows else take (nat n) rows)"

datatype background_task =
  Run_Screening_Task string "candidate_data list" "requirement list" string rat string

text \<open>
  The handler of \<^verbatim>\<open>POST /job/{job_id}/screen\<close>: its response, the background tasks it
  has added, and the state it leaves.
\<close>

definition screen_candidates ::
  "state \<Rightarrow> string \<Rightarrow> int option \<Rightarrow> (failure + payload) \<times> background_task list \<times> state" where
  "screen_candidates s job_id limit =
     (case scalar_one_or_none (filter (\<lambda>j. j_id j = job_id) (db_jobs s)) of
        Inl e \<Rightarrow> (Inl (Unhandled e), [], s)
      | Inr None \<Rightarrow> (Inl (HTTPException 404 ''Job not found''), [], s)
      | Inr (Some job) \<Rightarrow>
          (let query = filter (\<lambda>c. c_job_id c = job_id \<and> c_status c = ''applied''
                                     \<and> c_match_score c = None) (db_candidates s);
               selected = (case limit of
                             None \<Rightarrow> query
                           | Some n \<Rightarrow> if n = 0 then query else sql_limit n query)
           in if selected = [] then
                (Inr [''job_id'' \<mapsto> PyStr job_id,
                      ''message'' \<mapsto> PyStr ''No unscreened candidates found'',
                      ''screened_count'' \<mapsto> PyInt 0], [], s)
              else
                (let candidates_data =
                       List.map_filter
                         (\<lambda>c. case c_resume_path c of
                                 None \<Rightarrow> None
                               | Some p \<Rightarrow> if p = [] then None
                                           else Some \<lparr>cd_id = c_id c, cd_resume_path = p\<rparr>)
                         selected;
                     job_requirements = (case j_requirements job of None \<Rightarrow> [] | Some r \<Rightarrow> r);
                     min_exp = (case j_min_experience_years job of None \<Rightarrow> 0 | Some y \<Rightarrow> y);
                     exp_level = (case j_experience_level job of
                                    None \<Rightarrow> ''mid''
                                  | Some l \<Rightarrow> if l = [] then ''mid'' else l)
                 in (Inr [''job_id'' \<mapsto> PyStr job_id,
                          ''message'' \<mapsto> PyStr (''Screening initiated for ''
                             @ str_nat (length candidates_data) @ '' candidates''),
                          ''candidates_to_screen'' \<mapsto> PyInt (int (length candidates_data)),
                          ''status'' \<mapsto> PyStr ''processing'',
                          ''note'' \<mapsto> PyStr
                             ''CrewAI agents are processing candidates in the background''],
                     [Run_Screening_Task job_id candidates_data job_requirements
                        (j_description job) min_exp exp_level],
                     s))))"

text \<open>
  The skills \<^verbatim>\<open>rescreen_candidate\<close> reads off the analysis: the first line that holds
  \<^verbatim>\<open>DETECTED SKILLS:\<close>, what follows the marker, split at the commas.
\<close>

definition extract_skills :: "string \<Rightarrow> exn + (string \<times> string) list" where
  "extract_skills resume_analysis =
     (if py_in ''DETECTED SKILLS:'' resume_analysis then
        (case filter (\<lambda>line. py_in ''DETECTED SKILLS:'' line)
                (split resume_analysis [CHR 0x0A]) of
           [] \<Rightarrow> Inr []
         | line # _ \<Rightarrow>
             (case split line ''DETECTED SKILLS:'' of
                _ # skills_str # _ \<Rightarrow>
                  Inr (map (\<lambda>s. (strip s, ''intermediate'')) (split (strip skills_str) '',''))
              | _ \<Rightarrow> Inl (Exception ''IndexError'')))
      else Inr [])"

definition rescreen_update ::
  "settings \<Rightarrow> nat \<Rightarrow> string \<Rightarrow> (string \<times> string) list \<Rightarrow> screening_result \<Rightarrow> candidate_row
     \<Rightarrow> candidate_row" where
  "rescreen_update st now resume_analysis extracted_skills screening_result candidate =
     (let scored =
            candidate\<lparr>c_skills := extracted_skills,
                      c_match_score := Some (of_int (match_score screening_result)),
                      c_ai_assessment :=
                        Some (case analysis screening_result of None \<Rightarrow> [] | Some a \<Rightarrow> a),
                      c_match_details :=
                        Some (case recommendation screening_result of
                                None \<Rightarrow> ''review'' | Some r \<Rightarrow> r,
                              take 1000 resume_analysis),
                      c_screened_at := Some now\<rparr>
      in if match_score screening_result \<ge> min_match_score st
         then scored\<lparr>c_status := ''shortlisted''\<rparr>
         else scored\<lparr>c_status := ''rejected''\<rparr>)"

text \<open>
  The \<^verbatim>\<open>try\<close> block of \<^verbatim>\<open>rescreen_candidate\<close> up to the first write: the resume is
  parsed and analysed, the skills read off, the quick screening run.
\<close>

definition rescreen_steps ::
  "world \<Rightarrow> job_row \<Rightarrow> string \<Rightarrow> exn + string \<times> (string \<times> string) list \<times> screening_result" where
  "rescreen_steps w job resume_path =
     (let resume_text = resume_parser_run w resume_path in
      case resume_analyzer_run w resume_text of
        Inl e \<Rightarrow> Inl e
      | Inr resume_analysis \<Rightarrow>
          (case extract_skills resume_analysis of
             Inl e \<Rightarrow> Inl e
           | Inr extracted_skills \<Rightarrow>
               (case quick_screen_candidate w resume_text
                       (case j_requirements job of None \<Rightarrow> [] | Some r \<Rightarrow> r)
                       (j_description job)
                       (case j_min_experience_years job of None \<Rightarrow> 0 | Some y \<Rightarrow> y) of
                  Inl e \<Rightarrow> Inl e
                | Inr screening_result \<Rightarrow>
                    Inr (resume_analysis, extracted_skills, screening_result))))"

definition rescreen_candidate ::
  "settings \<Rightarrow> world \<Rightarrow> state \<Rightarrow> string \<Rightarrow> (failure + payload) \<times> state" where
  "rescreen_candidate st w s cid =
     (case scalar_one_or_none (filter (\<lambda>c. c_id c = cid) (db_candidates s)) of
        Inl e \<Rightarrow> (Inl (Unhandled e), s)
      | Inr None \<Rightarrow> (Inl (HTTPException 404 ''Candidate not found''), s)
      | Inr (Some candidate) \<Rightarrow>
          (case scalar_one_or_none
                  (filter (\<lambda>j. j_id j = c_job_id candidate) (db_jobs s)) of
             Inl e \<Rightarrow> (Inl (Unhandled e), s)
           | Inr None \<Rightarrow> (Inl (HTTPException 404 ''Job not found''), s)
           | Inr (Some job) \<Rightarrow>
               (case c_resume_path candidate of
                  None \<Rightarrow> (Inl (HTTPException 400 ''No resume found for candidate''), s)
                | Some resume_path \<Rightarrow>
                    if resume_path = [] then
                      (Inl (HTTPException 400 ''No resume found for candidate''), s)
                    else
                      (case rescreen_steps w job resume_path of
                         Inl e \<Rightarrow>
                           (Inr [''candidate_id'' \<mapsto> PyStr cid,
                                 ''message'' \<mapsto> PyStr (''Re-screening failed: '' @ str_exn e),
                                 ''status'' \<mapsto> PyStr ''failed''], s)
                       | Inr (resume_analysis, extracted_skills, screening_result) \<Rightarrow>
                           (let updated = rescreen_update st (utcnow w) resume_analysis
                                            extracted_skills screening_result candidate
                            in (Inr [''candidate_id'' \<mapsto> PyStr cid,
                                     ''match_score'' \<mapsto> PyInt (match_score screening_result),
                                     ''skills_extracted'' \<mapsto>
                                        PyInt (int (length extracted_skills)),
                                     ''skills'' \<mapsto>
                                        PyList (map (\<lambda>(n, l). PyDict [(''name'', PyStr n),
                                                                     (''level'', PyStr l)])
                                                  extracted_skills),
                                     ''status'' \<mapsto> PyStr (c_status updated),
                                     ''recommendation'' \<mapsto>
                                        PyStr (case recommendation screening_result of
                                                 None \<Rightarrow> ''review'' | Some r \<Rightarrow> r),
                                     ''message'' \<mapsto> PyStr ''Candidate re-screened successfully''],
                                s\<lparr>db_candidates :=
                                    map (\<lambda>c. if c_id c = cid then updated else c)
                                      (db_candidates s)\<rparr>))))))"

section \<open>\<^verbatim>\<open>api/routes/candidates.py\<close>: the status route\<close>



text \<open>
  A row as a screening leaves it: it has a score, and its status is \<^verbatim>\<open>shortlisted\<close>
  when the score reaches \<^verbatim>\<open>min_match_score\<close> and \<^verbatim>\<open>rejected\<close> otherwise.
\<close>

definition scored_by_threshold :: "settings \<Rightarrow> candidate_row \<Rightarrow> bool" where
  "scored_by_threshold st c =
     (\<exists>n. c_match_score c = Some (of_int n)
        \<and> c_status c = (if n \<ge> min_match_score st then ''shortlisted'' else ''rejected''))"

section \<open>The handler's selection, as the specification words it\<close>

text \<open>
  The candidates the screening handler selects: those of the job that have status
  \<^verbatim>\<open>applied\<close> and no score, the first \<open>limit\<close> of them when a positive limit is given;
  and what it is for a candidate to have a resume path.
\<close>

definition spec_selected :: "state \<Rightarrow> string \<Rightarrow> int option \<Rightarrow> candidate_row list" where
  "spec_selected s job_id limit =
     (let unscreened = filter (\<lambda>c. c_job_id c = job_id \<and> c_status c = ''applied''
                                     \<and> c_match_score c = None) (db_candidates s)
      in case limit of
           None \<Rightarrow> unscreened
         | Some n \<Rightarrow> if n \<le> 0 then unscreened else take (nat n) unscreened)"

definition spec_has_resume :: "candidate_row \<Rightarrow> bool" where
  "spec_has_resume c = (c_resume_path c \<noteq> None \<and> c_resume_path c \<noteq> Some [])"

section \<open>A small system to run the routes on\<close>

definition example_job :: job_row where
  "example_job =
     \<lparr>j_id = ''j1'', j_status = ''active'', j_description = ''python'',
      j_requirements = None, j_min_experience_years = None,
      j_experience_level = None, j_total_applicants = 1, j_screened_count = 0,
      j_shortlisted_count = 0, j_interviewed_count = 0, j_updated_at = None\<rparr>"

definition example_candidate :: candidate_row where
  "example_candidate =
     \<lparr>c_id = ''c1'', c_job_id = ''j1'', c_name = ''Ann'',
      c_email = Some ''ann@x.org'', c_phone = None, c_linkedin_url = None,
      c_github_url = None, c_portfolio_url = None, c_cover_letter = None,
      c_skills = [], c_resume_path = Some ''r/j1/c1_Ann.pdf'',
      c_status = ''applied'', c_match_score = None, c_ai_assessment = None,
      c_match_details = None, c_applied_at = Some 1, c_updated_at = Some 1,
      c_screened_at = None\<rparr>"

definition example_state :: state where
  "example_state =
     \<lparr>db_jobs = [example_job], db_candidates = [example_candidate],
      fs_dirs = [], fs_files = []\<rparr>"

definition example_world :: world where
  "example_world =
     \<lparr>path_exists = (\<lambda>p. True), kickoff = (\<lambda>c. Inr ''MATCH_SCORE: 80''), utcnow = 7,
      resume_parser_run = (\<lambda>p. ''text''),
      resume_analyzer_run = (\<lambda>t. Inr ''DETECTED SKILLS: python, sql''),
      uuid4 = ''0123456789''\<rparr>"

definition example_settings :: settings where
  "example_settings =
     \<lparr>min_match_score = 60, max_file_size_mb = 10, resume_dir = ''./data/resumes''\<rparr>"


section \<open>Properties of the score and the recommendation\<close>





text \<open>
  Claim C7. For every input string \<^verbatim>\<open>extract_recommendation\<close> returns one of the five
  values \<^verbatim>\<open>strong_hire\<close>, \<^verbatim>\<open>strong_no_hire\<close>, \<^verbatim>\<open>no_hire\<close>, \<^verbatim>\<open>hire\<close>,
  \<^verbatim>\<open>review\<close>; it returns \<^verbatim>\<open>strong_hire\<close> whenever the lower-cased string contains
  \<^verbatim>\<open>strong hire\<close>, and \<^verbatim>\<open>review\<close> whenever the lower-cased string contains none of
  the four hire keywords.
\<close>

theorem extract_recommendation_values:
  "extract_recommendation s \<in> {''strong_hire'', ''strong_no_hire'', ''no_hire'', ''hire'', ''review''}
   \<and> (py_in ''strong hire'' (lower s) \<longrightarrow> extract_recommendation s = ''strong_hire'')
   \<and> (\<not> py_in ''strong hire'' (lower s) \<and> \<not> py_in ''strong no hire'' (lower s)
        \<and> \<not> py_in ''no hire'' (lower s) \<and> \<not> py_in ''hire'' (lower s)
       \<longrightarrow> extract_recommendation s = ''review'')"
  by (simp add: extract_recommendation_def Let_def)

theorem extract_recommendation_values_witness:
  "py_in ''strong hire'' (lower ''Recommendation: Strong Hire'')
   \<and> extract_recommendation ''Recommendation: Strong Hire'' = ''strong_hire''
   \<and> \<not> py_in ''hire'' (lower ''Recommendation: Maybe'')
   \<and> extract_recommendation ''Recommendation: Maybe'' = ''review''"
proof -
  have h: "py_in ''strong hire'' (lower ''Recommendation: Strong Hire'')"
    by code_simp
  have k: "\<not> py_in ''strong hire'' (lower ''Recommendation: Maybe'')
           \<and> \<not> py_in ''strong no hire'' (lower ''Recommendation: Maybe'')
           \<and> \<not> py_in ''no hire'' (lower ''Recommendation: Maybe'')
           \<and> \<not> py_in ''hire'' (lower ''Recommendation: Maybe'')"
    by code_simp
  from h extract_recommendation_values [of "''Recommendation: Strong Hire''"]
  have a: "extract_recommendation ''Recommendation: Strong Hire'' = ''strong_hire''"
    by blast
  from k extract_recommendation_values [of "''Recommendation: Maybe''"]
  have b: "extract_recommendation ''Recommendation: Maybe'' = ''review''"
    by blast
  from h k a b show ?thesis by blast
qed

















section \<open>Properties of the screening functions\<close>

lemma screen_candidate_returns:
  "\<exists>d. screen_candidate w rp reqs jd me el = Inr d \<and> candidate_id d = None"
  by (auto simp: screen_candidate_def py_try_def Let_def split: sum.splits)



lemma screen_each_returns:
  "\<exists>results. screen_each w i cs reqs jd me el = Inr results
     \<and> map candidate_id results = map (\<lambda>c. Some (cd_id c)) cs
     \<and> (\<forall>k < length cs.
           screen_candidate (w (i + k)) (cd_resume_path (cs ! k)) reqs jd me el
             = Inr ((results ! k)\<lparr>candidate_id := None\<rparr>))"
proof (induction cs arbitrary: i)
  case Nil
  then show ?case by simp
next
  case (Cons c cs)
  obtain d where d: "screen_candidate (w i) (cd_resume_path c) reqs jd me el = Inr d"
    "candidate_id d = None"
    using screen_candidate_returns by blast
  obtain rs where rs: "screen_each w (Suc i) cs reqs jd me el = Inr rs"
    "map candidate_id rs = map (\<lambda>c. Some (cd_id c)) cs"
    "\<forall>k < length cs. screen_candidate (w (Suc i + k)) (cd_resume_path (cs ! k)) reqs jd me el
             = Inr ((rs ! k)\<lparr>candidate_id := None\<rparr>)"
    using Cons.IH [of "Suc i"] by blast
  have run: "screen_each w i (c # cs) reqs jd me el = Inr (d\<lparr>candidate_id := Some (cd_id c)\<rparr> # rs)"
    using d(1) rs(1) by simp
  have ids: "map candidate_id (d\<lparr>candidate_id := Some (cd_id c)\<rparr> # rs)
             = map (\<lambda>c. Some (cd_id c)) (c # cs)"
    using rs(2) by simp
  have each: "screen_candidate (w (i + k)) (cd_resume_path ((c # cs) ! k)) reqs jd me el
             = Inr (((d\<lparr>candidate_id := Some (cd_id c)\<rparr> # rs) ! k)\<lparr>candidate_id := None\<rparr>)"
    if "k < length (c # cs)" for k
  proof (cases k)
    case 0
    then show ?thesis using d by simp
  next
    case (Suc j)
    then show ?thesis using rs(3) that by simp
  qed
  from run ids each show ?case by blast
qed

lemma sort_by_score_sorted: "sorted_wrt (\<lambda>a b. match_score a \<ge> match_score b) (sort_by_score rs)"
proof -
  have "sorted (map (\<lambda>x. - match_score x) (sort_by_score rs))"
    unfolding sort_by_score_def by (rule sorted_sort_key)
  then show ?thesis by (simp add: sorted_map)
qed

text \<open>
  Claim C6. For every list of candidates \<^verbatim>\<open>screen_multiple_candidates\<close> returns one
  result for each candidate: as many results as candidates, the ids under
  \<^verbatim>\<open>candidate_id\<close> are the ids of the candidates (counted with their repetitions),
  each result is the screening of the candidate whose id it carries, and the list is in
  non-increasing order of \<^verbatim>\<open>match_score\<close>.
\<close>

theorem screen_multiple_candidates_ranked:
  "\<exists>results. screen_multiple_candidates w cs reqs jd me el = Inr results
     \<and> length results = length cs
     \<and> mset (map candidate_id results) = mset (map (\<lambda>c. Some (cd_id c)) cs)
     \<and> (\<forall>r \<in> set results. \<exists>k < length cs.
            candidate_id r = Some (cd_id (cs ! k))
            \<and> screen_candidate (w k) (cd_resume_path (cs ! k)) reqs jd me el
                = Inr (r\<lparr>candidate_id := None\<rparr>))
     \<and> sorted_wrt (\<lambda>a b. match_score a \<ge> match_score b) results"
proof -
  obtain rs where rs: "screen_each w 0 cs reqs jd me el = Inr rs"
    "map candidate_id rs = map (\<lambda>c. Some (cd_id c)) cs"
    "\<forall>k < length cs. screen_candidate (w (0 + k)) (cd_resume_path (cs ! k)) reqs jd me el
             = Inr ((rs ! k)\<lparr>candidate_id := None\<rparr>)"
    using screen_each_returns [of w 0 cs reqs jd me el] by blast
  have len: "length rs = length cs"
    using rs(2) by (metis length_map)
  have run: "screen_multiple_candidates w cs reqs jd me el = Inr (sort_by_score rs)"
    using rs(1) by (simp add: screen_multiple_candidates_def)
  have l: "length (sort_by_score rs) = length cs"
    using len by (simp add: sort_by_score_def)
  have m: "mset (map candidate_id (sort_by_score rs)) = mset (map (\<lambda>c. Some (cd_id c)) cs)"
    using rs(2) by (metis mset_map mset_sort sort_by_score_def)
  have e: "\<exists>k < length cs. candidate_id r = Some (cd_id (cs ! k))
            \<and> screen_candidate (w k) (cd_resume_path (cs ! k)) reqs jd me el
                = Inr (r\<lparr>candidate_id := None\<rparr>)"
    if "r \<in> set (sort_by_score rs)" for r
  proof -
    from that have "r \<in> set rs" by (simp add: sort_by_score_def)
    then obtain k where k: "k < length rs" "rs ! k = r"
      by (auto simp: in_set_conv_nth)
    have "candidate_id (rs ! k) = Some (cd_id (cs ! k))"
      using rs(2) k(1) len by (metis nth_map)
    with rs(3) k len show ?thesis by auto
  qed
  from run l m e sort_by_score_sorted [of rs] show ?thesis by blast
qed

theorem screen_multiple_candidates_ranked_witness:
  "\<exists>results. screen_multiple_candidates
       (\<lambda>i. \<lparr>path_exists = (\<lambda>p. p = ''b.pdf''), kickoff = (\<lambda>c. Inr ''MATCH_SCORE: 80''), utcnow = 0,
             resume_parser_run = (\<lambda>p. []), resume_analyzer_run = (\<lambda>t. Inr []), uuid4 = []\<rparr>)
       [\<lparr>cd_id = ''a'', cd_resume_path = ''a.pdf''\<rparr>, \<lparr>cd_id = ''b'', cd_resume_path = ''b.pdf''\<rparr>]
       [] ''python'' 2 ''mid'' = Inr results
     \<and> length results = 2
     \<and> sorted_wrt (\<lambda>a b. match_score a \<ge> match_score b) results"
  using screen_multiple_candidates_ranked
    [of "(\<lambda>i. \<lparr>path_exists = (\<lambda>p. p = ''b.pdf''), kickoff = (\<lambda>c. Inr ''MATCH_SCORE: 80''), utcnow = 0,
             resume_parser_run = (\<lambda>p. []), resume_analyzer_run = (\<lambda>t. Inr []), uuid4 = []\<rparr>)"
        "[\<lparr>cd_id = ''a'', cd_resume_path = ''a.pdf''\<rparr>, \<lparr>cd_id = ''b'', cd_resume_path = ''b.pdf''\<rparr>]"
        "[]" "''python''" 2 "''mid''"]
  by auto

section \<open>Properties of the skill matcher\<close>







section \<open>Properties of the screening routes\<close>

lemma screening_update_scored: "scored_by_threshold st (screening_update st now r c)"
  by (auto simp: scored_by_threshold_def screening_update_def Let_def)

lemma screening_update_id: "c_id (screening_update st now r c) = c_id c"
  by (simp add: screening_update_def Let_def)

lemma rescreen_update_scored: "scored_by_threshold st (rescreen_update st now a sk r c)"
  by (auto simp: scored_by_threshold_def rescreen_update_def Let_def)

lemma rescreen_update_id: "c_id (rescreen_update st now a sk r c) = c_id c"
  by (simp add: rescreen_update_def Let_def)

lemma filter_key_distinct:
  "distinct (map f xs) \<Longrightarrow> filter (\<lambda>x. f x = a) xs = [] \<or> (\<exists>x. filter (\<lambda>x. f x = a) xs = [x])"
  by (induction xs) (auto simp: filter_empty_conv image_iff)

lemma scalar_one_or_none_key:
  assumes "distinct (map f xs)"
  shows "scalar_one_or_none (filter (\<lambda>x. f x = a) xs)
         = (if a \<in> f ` set xs then Inr (Some (hd (filter (\<lambda>x. f x = a) xs))) else Inr None)"
proof -
  from filter_key_distinct [OF assms, of a]
  show ?thesis
  proof
    assume e: "filter (\<lambda>x. f x = a) xs = []"
    then have "a \<notin> f ` set xs" by (auto simp: filter_empty_conv)
    with e show ?thesis by (simp add: scalar_one_or_none_def)
  next
    assume "\<exists>x. filter (\<lambda>x. f x = a) xs = [x]"
    then obtain x where x: "filter (\<lambda>x. f x = a) xs = [x]" by blast
    then have "x \<in> set (filter (\<lambda>x. f x = a) xs)" by simp
    then have "a \<in> f ` set xs" by auto
    with x show ?thesis by (simp add: scalar_one_or_none_def)
  qed
qed

text \<open>One turn of the loop of \<^verbatim>\<open>run_screening_task\<close>.\<close>

lemma screening_step:
  assumes "distinct (map c_id (db_candidates s))"
  shows "\<exists>r. (case screen_candidate (w i) (cd_resume_path cd) reqs jd me el of
          Inl e \<Rightarrow> s
        | Inr result \<Rightarrow>
            (case scalar_one_or_none
                    (filter (\<lambda>c. c_id c = cd_id cd) (db_candidates s)) of
               Inl e \<Rightarrow> s
             | Inr None \<Rightarrow> s
             | Inr (Some candidate_db) \<Rightarrow>
                 s\<lparr>db_candidates :=
                     map (\<lambda>c. if c_id c = cd_id cd
                               then screening_update st (utcnow (w i)) result c else c)
                       (db_candidates s)\<rparr>))
       = s\<lparr>db_candidates :=
             map (\<lambda>c. if c_id c = cd_id cd then screening_update st (utcnow (w i)) r c else c)
               (db_candidates s)\<rparr>"
proof -
  obtain d where d: "screen_candidate (w i) (cd_resume_path cd) reqs jd me el = Inr d"
    using screen_candidate_returns by blast
  show ?thesis
  proof (cases "cd_id cd \<in> c_id ` set (db_candidates s)")
    case True
    then show ?thesis
      using d scalar_one_or_none_key [OF assms, of "cd_id cd"] by auto
  next
    case False
    have "map (\<lambda>c. if c_id c = cd_id cd then screening_update st (utcnow (w i)) d c else c)
                 (db_candidates s) = db_candidates s"
      using False by (intro map_idI) force
    then have same: "s\<lparr>db_candidates :=
             map (\<lambda>c. if c_id c = cd_id cd then screening_update st (utcnow (w i)) d c else c)
               (db_candidates s)\<rparr> = s"
      by simp
    have "(case screen_candidate (w i) (cd_resume_path cd) reqs jd me el of
          Inl e \<Rightarrow> s
        | Inr result \<Rightarrow>
            (case scalar_one_or_none
                    (filter (\<lambda>c. c_id c = cd_id cd) (db_candidates s)) of
               Inl e \<Rightarrow> s
             | Inr None \<Rightarrow> s
             | Inr (Some candidate_db) \<Rightarrow>
                 s\<lparr>db_candidates :=
                     map (\<lambda>c. if c_id c = cd_id cd
                               then screening_update st (utcnow (w i)) result c else c)
                       (db_candidates s)\<rparr>)) = s"
      using d False scalar_one_or_none_key [OF assms, of "cd_id cd"] by simp
    with same show ?thesis by metis
  qed
qed

lemma screening_loop_scored:
  assumes "distinct (map c_id (db_candidates s))"
  shows "\<forall>c \<in> set (db_candidates (screening_loop st w i cds reqs jd me el s)).
           scored_by_threshold st c \<or> (c \<in> set (db_candidates s) \<and> c_id c \<notin> cd_id ` set cds)"
  using assms
proof (induction cds arbitrary: i s)
  case Nil
  then show ?case by simp
next
  case (Cons cd cds)
  obtain r where step: "(case screen_candidate (w i) (cd_resume_path cd) reqs jd me el of
          Inl e \<Rightarrow> s
        | Inr result \<Rightarrow>
            (case scalar_one_or_none
                    (filter (\<lambda>c. c_id c = cd_id cd) (db_candidates s)) of
               Inl e \<Rightarrow> s
             | Inr None \<Rightarrow> s
             | Inr (Some candidate_db) \<Rightarrow>
                 s\<lparr>db_candidates :=
                     map (\<lambda>c. if c_id c = cd_id cd
                               then screening_update st (utcnow (w i)) result c else c)
                       (db_candidates s)\<rparr>))
       = s\<lparr>db_candidates :=
             map (\<lambda>c. if c_id c = cd_id cd then screening_update st (utcnow (w i)) r c else c)
               (db_candidates s)\<rparr>"
    using screening_step [OF Cons.prems, where w = w and i = i and cd = cd and reqs = reqs
        and jd = jd and me = me and el = el and st = st]
    by blast
  let ?s1 = "s\<lparr>db_candidates :=
             map (\<lambda>c. if c_id c = cd_id cd then screening_update st (utcnow (w i)) r c else c)
               (db_candidates s)\<rparr>"
  have ids: "map c_id (db_candidates ?s1) = map c_id (db_candidates s)"
    by (simp add: screening_update_id cong: if_cong)
  have dist: "distinct (map c_id (db_candidates ?s1))"
    by (simp only: ids Cons.prems)
  have run: "screening_loop st w i (cd # cds) reqs jd me el s
             = screening_loop st w (Suc i) cds reqs jd me el ?s1"
    using step by simp
  show ?case
  proof
    fix c
    assume "c \<in> set (db_candidates (screening_loop st w i (cd # cds) reqs jd me el s))"
    then have "c \<in> set (db_candidates (screening_loop st w (Suc i) cds reqs jd me el ?s1))"
      using run by simp
    with Cons.IH [OF dist, of "Suc i"]
    have "scored_by_threshold st c \<or> (c \<in> set (db_candidates ?s1) \<and> c_id c \<notin> cd_id ` set cds)"
      by blast
    then show "scored_by_threshold st c
               \<or> (c \<in> set (db_candidates s) \<and> c_id c \<notin> cd_id ` set (cd # cds))"
    proof
      assume "scored_by_threshold st c"
      then show ?thesis ..
    next
      assume h: "c \<in> set (db_candidates ?s1) \<and> c_id c \<notin> cd_id ` set cds"
      then obtain c0 where c0: "c0 \<in> set (db_candidates s)"
        "c = (if c_id c0 = cd_id cd then screening_update st (utcnow (w i)) r c0 else c0)"
        by auto
      show ?thesis
      proof (cases "c_id c0 = cd_id cd")
        case True
        with c0 show ?thesis by (simp add: screening_update_scored)
      next
        case False
        with c0 h show ?thesis by auto
      qed
    qed
  qed
qed

lemma run_screening_task_candidates:
  "db_candidates (run_screening_task st w job_id cds reqs jd me el s)
   = db_candidates (screening_loop st w 0 cds reqs jd me el s)"
  by (simp add: run_screening_task_def Let_def split: sum.splits option.splits)

lemma rescreen_candidate_success:
  assumes "rescreen_candidate st w s cid = (Inr p, s')"
    and "p ''message'' = Some (PyStr ''Candidate re-screened successfully'')"
  shows "\<exists>candidate a sk r.
           s' = s\<lparr>db_candidates :=
                   map (\<lambda>c. if c_id c = cid
                             then rescreen_update st (utcnow w) a sk r candidate else c)
                     (db_candidates s)\<rparr>"
  using assms
  by (auto simp: rescreen_candidate_def Let_def
      split: sum.splits option.splits if_splits prod.splits)

text \<open>
  Claim C2. After \<^verbatim>\<open>run_screening_task\<close>, every row whose id is among the candidates
  given to the task has a score, and its status is \<^verbatim>\<open>shortlisted\<close> if the score is at
  least \<^verbatim>\<open>settings.min_match_score\<close> and \<^verbatim>\<open>rejected\<close> otherwise (the ids of the rows
  are distinct: the id is the primary key). The same holds of the candidate's row after a
  \<^verbatim>\<open>rescreen_candidate\<close> that reports success. So no row whose score was just set is
  left with status \<^verbatim>\<open>applied\<close> or \<^verbatim>\<open>screening\<close>.
\<close>

theorem screening_sets_status_by_threshold:
  "(distinct (map c_id (db_candidates s)) \<longrightarrow>
      (\<forall>c \<in> set (db_candidates (run_screening_task st w job_id cds reqs jd me el s)).
         c_id c \<in> cd_id ` set cds \<longrightarrow>
           (\<exists>n. c_match_score c = Some (of_int n)
              \<and> c_status c = (if n \<ge> min_match_score st then ''shortlisted'' else ''rejected''))))
   \<and> (\<forall>p s'. rescreen_candidate st w1 s cid = (Inr p, s')
          \<and> p ''message'' = Some (PyStr ''Candidate re-screened successfully'') \<longrightarrow>
        (\<forall>c \<in> set (db_candidates s'). c_id c = cid \<longrightarrow>
           (\<exists>n. c_match_score c = Some (of_int n)
              \<and> c_status c = (if n \<ge> min_match_score st then ''shortlisted'' else ''rejected''))))"
proof -
  have a: "\<forall>c \<in> set (db_candidates (run_screening_task st w job_id cds reqs jd me el s)).
         c_id c \<in> cd_id ` set cds \<longrightarrow>
           (\<exists>n. c_match_score c = Some (of_int n)
              \<and> c_status c = (if n \<ge> min_match_score st then ''shortlisted'' else ''rejected''))"
    if "distinct (map c_id (db_candidates s))"
    using screening_loop_scored [OF that, of st w 0 cds reqs jd me el]
    unfolding run_screening_task_candidates scored_by_threshold_def by blast
  have b: "\<forall>c \<in> set (db_candidates s'). c_id c = cid \<longrightarrow>
           (\<exists>n. c_match_score c = Some (of_int n)
              \<and> c_status c = (if n \<ge> min_match_score st then ''shortlisted'' else ''rejected''))"
    if h: "rescreen_candidate st w1 s cid = (Inr p, s')"
      "p ''message'' = Some (PyStr ''Candidate re-screened successfully'')" for p s'
  proof -
    from rescreen_candidate_success [OF h] obtain candidate a sk r where
      s': "s' = s\<lparr>db_candidates :=
                  map (\<lambda>c. if c_id c = cid
                            then rescreen_update st (utcnow w1) a sk r candidate else c)
                    (db_candidates s)\<rparr>"
      by blast
    show ?thesis
    proof (intro ballI impI)
      fix c
      assume "c \<in> set (db_candidates s')" and id: "c_id c = cid"
      then have "c \<in> (\<lambda>c. if c_id c = cid
                           then rescreen_update st (utcnow w1) a sk r candidate else c)
                     ` set (db_candidates s)"
        unfolding s' by simp
      then obtain c0 where
        c0: "c = (if c_id c0 = cid then rescreen_update st (utcnow w1) a sk r candidate else c0)"
        by (rule imageE)
      have "c = rescreen_update st (utcnow w1) a sk r candidate"
      proof (cases "c_id c0 = cid")
        case True
        with c0 show ?thesis by simp
      next
        case False
        with c0 id show ?thesis by simp
      qed
      then show "\<exists>n. c_match_score c = Some (of_int n)
              \<and> c_status c = (if n \<ge> min_match_score st then ''shortlisted'' else ''rejected'')"
        using rescreen_update_scored [of st "utcnow w1" a sk r candidate]
        by (simp add: scored_by_threshold_def)
    qed
  qed
  from a b show ?thesis by blast
qed

theorem screening_sets_status_by_threshold_witness:
  "distinct (map c_id (db_candidates example_state))
   \<and> map (\<lambda>c. (c_id c, c_match_score c, c_status c))
        (db_candidates
           (run_screening_task example_settings (\<lambda>i. example_world) ''j1''
              [\<lparr>cd_id = ''c1'', cd_resume_path = ''r/j1/c1_Ann.pdf''\<rparr>] [] ''python'' 0 ''mid''
              example_state))
      = [(''c1'', Some 80, ''shortlisted'')]
   \<and> (\<exists>n. c_match_score
             (hd (db_candidates
                (run_screening_task example_settings (\<lambda>i. example_world) ''j1''
                   [\<lparr>cd_id = ''c1'', cd_resume_path = ''r/j1/c1_Ann.pdf''\<rparr>] [] ''python'' 0
                   ''mid'' example_state))) = Some (of_int n)
          \<and> c_status
             (hd (db_candidates
                (run_screening_task example_settings (\<lambda>i. example_world) ''j1''
                   [\<lparr>cd_id = ''c1'', cd_resume_path = ''r/j1/c1_Ann.pdf''\<rparr>] [] ''python'' 0
                   ''mid'' example_state)))
            = (if n \<ge> min_match_score example_settings then ''shortlisted'' else ''rejected''))"
proof -
  let ?cds = "[\<lparr>cd_id = ''c1'', cd_resume_path = ''r/j1/c1_Ann.pdf''\<rparr>]"
  let ?s' = "run_screening_task example_settings (\<lambda>i. example_world) ''j1'' ?cds [] ''python'' 0
               ''mid'' example_state"
  have d: "distinct (map c_id (db_candidates example_state))" by code_simp
  have e: "map (\<lambda>c. (c_id c, c_match_score c, c_status c)) (db_candidates ?s')
           = [(''c1'', Some 80, ''shortlisted'')]"
    by code_simp
  have m: "hd (db_candidates ?s') \<in> set (db_candidates ?s')" by code_simp
  have i: "c_id (hd (db_candidates ?s')) \<in> cd_id ` set ?cds" by code_simp
  from screening_sets_status_by_threshold
         [of example_state example_settings "\<lambda>i. example_world" "''j1''" ?cds "[]" "''python''" 0
             "''mid''"]
       d m i
  have "\<exists>n. c_match_score (hd (db_candidates ?s')) = Some (of_int n)
          \<and> c_status (hd (db_candidates ?s'))
            = (if n \<ge> min_match_score example_settings then ''shortlisted'' else ''rejected'')"
    by blast
  with d e show ?thesis by blast
qed

section \<open>Status values\<close>








section \<open>The screening handler\<close>

lemma sql_limit_selected:
  "(case limit of None \<Rightarrow> q | Some n \<Rightarrow> if n = 0 then q else sql_limit n q)
   = (case limit of None \<Rightarrow> q | Some n \<Rightarrow> if n \<le> 0 then q else take (nat n) q)"
  by (auto simp: sql_limit_def split: option.splits)

lemma candidates_data_of_selected:
  fixes sel :: "candidate_row list"
  defines "cds \<equiv> List.map_filter
             (\<lambda>c. case c_resume_path c of
                     None \<Rightarrow> None
                   | Some p \<Rightarrow> if p = [] then None
                               else Some \<lparr>cd_id = c_id c, cd_resume_path = p\<rparr>) sel"
  shows "length cds = length (filter spec_has_resume sel)
         \<and> map cd_id cds = map c_id (filter spec_has_resume sel)
         \<and> map (\<lambda>d. Some (cd_resume_path d)) cds = map c_resume_path (filter spec_has_resume sel)"
  unfolding cds_def
  by (induction sel) (auto simp: List.map_filter_simps spec_has_resume_def split: option.splits)

text \<open>
  Claim C9, as amended. Every invocation of the handler leaves the state as it is. When
  the job exists and at least one unscreened candidate is selected, it adds the one
  background task \<^verbatim>\<open>run_screening_task\<close>, for the selected candidates that have a
  resume path, and returns the \<^verbatim>\<open>processing\<close> payload whose \<^verbatim>\<open>candidates_to_screen\<close>
  is their number. When the job exists and no candidate is selected it adds no task and
  returns a payload with \<^verbatim>\<open>screened_count\<close> 0 and no \<^verbatim>\<open>status\<close>; when there is no such
  job it raises 404.
\<close>

theorem screen_candidates_frame:
  "snd (snd (screen_candidates s job_id limit)) = s
   \<and> (filter (\<lambda>j. j_id j = job_id) (db_jobs s) = [job] \<and> spec_selected s job_id limit \<noteq> [] \<longrightarrow>
        (\<exists>p cds reqs jd me el.
           screen_candidates s job_id limit
             = (Inr p, [Run_Screening_Task job_id cds reqs jd me el], s)
           \<and> p ''status'' = Some (PyStr ''processing'')
           \<and> p ''candidates_to_screen''
               = Some (PyInt (int (length (filter spec_has_resume (spec_selected s job_id limit)))))
           \<and> map cd_id cds = map c_id (filter spec_has_resume (spec_selected s job_id limit))
           \<and> map (\<lambda>d. Some (cd_resume_path d)) cds
               = map c_resume_path (filter spec_has_resume (spec_selected s job_id limit))))
   \<and> (filter (\<lambda>j. j_id j = job_id) (db_jobs s) = [job] \<and> spec_selected s job_id limit = [] \<longrightarrow>
        (\<exists>p. screen_candidates s job_id limit = (Inr p, [], s)
           \<and> p ''status'' = None \<and> p ''candidates_to_screen'' = None
           \<and> p ''screened_count'' = Some (PyInt 0)))
   \<and> (filter (\<lambda>j. j_id j = job_id) (db_jobs s) = [] \<longrightarrow>
        screen_candidates s job_id limit = (Inl (HTTPException 404 ''Job not found''), [], s))"
proof -
  have frame: "snd (snd (screen_candidates s job_id limit)) = s"
    by (simp add: screen_candidates_def Let_def split: sum.splits option.splits)
  have none: "screen_candidates s job_id limit = (Inl (HTTPException 404 ''Job not found''), [], s)"
    if "filter (\<lambda>j. j_id j = job_id) (db_jobs s) = []"
    using that by (simp add: screen_candidates_def scalar_one_or_none_def)
  have sel: "spec_selected s job_id limit
             = (case limit of
                  None \<Rightarrow> filter (\<lambda>c. c_job_id c = job_id \<and> c_status c = ''applied''
                                     \<and> c_match_score c = None) (db_candidates s)
                | Some n \<Rightarrow> if n = 0
                    then filter (\<lambda>c. c_job_id c = job_id \<and> c_status c = ''applied''
                                     \<and> c_match_score c = None) (db_candidates s)
                    else sql_limit n (filter (\<lambda>c. c_job_id c = job_id \<and> c_status c = ''applied''
                                     \<and> c_match_score c = None) (db_candidates s)))"
    unfolding spec_selected_def Let_def sql_limit_selected ..
  have empty: "\<exists>p. screen_candidates s job_id limit = (Inr p, [], s)
           \<and> p ''status'' = None \<and> p ''candidates_to_screen'' = None
           \<and> p ''screened_count'' = Some (PyInt 0)"
    if "filter (\<lambda>j. j_id j = job_id) (db_jobs s) = [job]" "spec_selected s job_id limit = []"
    using that unfolding sel
    by (simp add: screen_candidates_def scalar_one_or_none_def Let_def)
  have some: "\<exists>p cds reqs jd me el.
           screen_candidates s job_id limit
             = (Inr p, [Run_Screening_Task job_id cds reqs jd me el], s)
           \<and> p ''status'' = Some (PyStr ''processing'')
           \<and> p ''candidates_to_screen''
               = Some (PyInt (int (length (filter spec_has_resume (spec_selected s job_id limit)))))
           \<and> map cd_id cds = map c_id (filter spec_has_resume (spec_selected s job_id limit))
           \<and> map (\<lambda>d. Some (cd_resume_path d)) cds
               = map c_resume_path (filter spec_has_resume (spec_selected s job_id limit))"
    if "filter (\<lambda>j. j_id j = job_id) (db_jobs s) = [job]" "spec_selected s job_id limit \<noteq> []"
    using that candidates_data_of_selected [of "spec_selected s job_id limit"]
    unfolding sel
    by (simp add: screen_candidates_def scalar_one_or_none_def Let_def)
  from frame none empty some show ?thesis by blast
qed

theorem screen_candidates_frame_witness:
  "\<exists>p cds reqs jd me el.
     screen_candidates example_state ''j1'' None
       = (Inr p, [Run_Screening_Task ''j1'' cds reqs jd me el], example_state)
     \<and> p ''status'' = Some (PyStr ''processing'')
     \<and> p ''candidates_to_screen'' = Some (PyInt 1)
     \<and> map cd_id cds = [''c1'']"
proof -
  have j: "filter (\<lambda>j. j_id j = ''j1'') (db_jobs example_state) = [example_job]" by code_simp
  have n: "spec_selected example_state ''j1'' None \<noteq> []" by code_simp
  have l: "int (length (filter spec_has_resume (spec_selected example_state ''j1'' None))) = 1"
    by code_simp
  have i: "map c_id (filter spec_has_resume (spec_selected example_state ''j1'' None)) = [''c1'']"
    by code_simp
  from screen_candidates_frame [of example_state "''j1''" None example_job] j n
  obtain p cds reqs jd me el where
    "screen_candidates example_state ''j1'' None
       = (Inr p, [Run_Screening_Task ''j1'' cds reqs jd me el], example_state)"
    "p ''status'' = Some (PyStr ''processing'')"
    "p ''candidates_to_screen''
       = Some (PyInt (int (length (filter spec_has_resume (spec_selected example_state ''j1'' None)))))"
    "map cd_id cds = map c_id (filter spec_has_resume (spec_selected example_state ''j1'' None))"
    by blast
  with l i show ?thesis by auto
qed

theorem no_unscreened_candidates_counterexample:
  "fst (snd (screen_candidates (example_state\<lparr>db_candidates := []\<rparr>) ''j1'' None)) = []
   \<and> (case fst (screen_candidates (example_state\<lparr>db_candidates := []\<rparr>) ''j1'' None) of
        Inl f \<Rightarrow> False
      | Inr p \<Rightarrow> p ''status'' = None \<and> p ''candidates_to_screen'' = None
                 \<and> p ''message'' = Some (PyStr ''No unscreened candidates found''))"
  by code_simp

section \<open>Applications that are turned down\<close>



end
